theory Spec2Isabelle
  imports Main "HOL-Library.Word"
begin

section \<open>Values of the store\<close>

text \<open>
  The schema stores identifiers as UUIDs and instants as timestamps with time zone. Both
  are only compared (identifiers for equality, instants for order), so an identifier is a
  number and an instant is a count of microseconds. An INTEGER column holds a signed
  32-bit value, read with \<open>sint\<close>. A nullable column is an \<open>option\<close>; a column
  declared NOT NULL is a plain value. A row holds values of the types of its columns: a
  request whose value does not convert to the type of its column does not become a
  statement on rows.
\<close>

type_synonym uuid = nat
type_synonym timestamptz = int

text \<open>
  A JSONB object is kept as the list of its keys with the text that the operator
  \<^verbatim>\<open>->>\<close> returns for each key; a key whose value is the JSON null is left out, since
  \<^verbatim>\<open>->>\<close> yields NULL for it as for a missing key. A NULL column is \<open>None\<close>.
\<close>

type_synonym jsonb = "(string \<times> string) list"

definition json_text :: "jsonb option \<Rightarrow> string \<Rightarrow> string option" where
  "json_text j k = (case j of None \<Rightarrow> None | Some kv \<Rightarrow> map_of kv k)"

text \<open>SQL's COALESCE of two arguments: the first one that is not NULL.\<close>

definition coalesce :: "'a option \<Rightarrow> 'a option \<Rightarrow> 'a option" where
  "coalesce a b = (case a of Some x \<Rightarrow> Some x | None \<Rightarrow> b)"

text \<open>
  SQL's \<^verbatim>\<open>=\<close> is three-valued: comparing with NULL gives NULL. A policy expression lets a row
  through only when it evaluates to true; false and NULL both keep the row out.
\<close>

definition sql_eq :: "'a option \<Rightarrow> 'a option \<Rightarrow> bool option" where
  "sql_eq a b = (case a of None \<Rightarrow> None
                 | Some x \<Rightarrow> (case b of None \<Rightarrow> None | Some y \<Rightarrow> Some (x = y)))"

definition sql_true :: "bool option \<Rightarrow> bool" where
  "sql_true v = (v = Some True)"

section \<open>Tables\<close>

text \<open>
  \<^verbatim>\<open>auth.users\<close> belongs to the identity provider; the columns the triggers read are kept.
\<close>

record user =
  usr_id :: uuid
  usr_email :: "string option"
  raw_user_meta_data :: "jsonb option"

record event =
  ev_id :: uuid
  title :: string
  description :: "string option"
  start_time :: timestamptz
  end_time :: timestamptz
  location :: "string option"
  max_attendees :: "32 word option"
  created_by :: "uuid option"
  ev_created_at :: timestamptz
  ev_updated_at :: timestamptz
  is_public :: "bool option"
  event_type :: "string option"
  metadata :: "jsonb option"

record event_registration =
  reg_id :: uuid
  reg_event_id :: uuid
  reg_user_id :: uuid
  registered_at :: timestamptz
  status :: "string option"

record profile =
  prof_id :: uuid
  prof_user_id :: uuid
  display_name :: "string option"
  email :: "string option"
  avatar_url :: "string option"
  notification_preferences :: "jsonb option"
  prof_created_at :: timestamptz
  prof_updated_at :: timestamptz

record event_notification =
  ntf_id :: uuid
  ntf_event_id :: uuid
  ntf_user_id :: uuid
  notification_type :: string
  message :: string
  scheduled_for :: timestamptz
  sent_at :: "timestamptz option"
  ntf_created_at :: timestamptz

record database =
  users :: "user list"
  events :: "event list"
  event_registrations :: "event_registration list"
  profiles :: "profile list"
  event_notifications :: "event_notification list"

definition empty_database :: database where
  "empty_database = \<lparr>users = [], events = [], event_registrations = [], profiles = [],
     event_notifications = []\<rparr>"

datatype store_error =
  PolicyViolation | UniqueViolation | ForeignKeyViolation | CheckViolation

section \<open>Row-level security policies\<close>

text \<open>
  Each definition is one CREATE POLICY statement; the caller is \<^verbatim>\<open>auth.uid()\<close>, which is NULL
  for a request without an identity. The policies of one table and one command are
  permissive, so a row passes when at least one of them is true.
\<close>

definition public_events_are_viewable_by_everyone :: "event \<Rightarrow> bool option" where
  "public_events_are_viewable_by_everyone e = sql_eq (is_public e) (Some True)"

definition users_can_view_their_own_events :: "uuid option \<Rightarrow> event \<Rightarrow> bool option" where
  "users_can_view_their_own_events caller e = sql_eq caller (created_by e)"

definition authenticated_users_can_create_events :: "uuid option \<Rightarrow> event \<Rightarrow> bool option" where
  "authenticated_users_can_create_events caller e = sql_eq caller (created_by e)"

definition users_can_update_their_own_events :: "uuid option \<Rightarrow> event \<Rightarrow> bool option" where
  "users_can_update_their_own_events caller e = sql_eq caller (created_by e)"

definition users_can_delete_their_own_events :: "uuid option \<Rightarrow> event \<Rightarrow> bool option" where
  "users_can_delete_their_own_events caller e = sql_eq caller (created_by e)"

definition events_select_policy :: "uuid option \<Rightarrow> event \<Rightarrow> bool" where
  "events_select_policy caller e =
     (sql_true (public_events_are_viewable_by_everyone e)
      \<or> sql_true (users_can_view_their_own_events caller e))"

definition select_events :: "uuid option \<Rightarrow> database \<Rightarrow> event list" where
  "select_events caller db = filter (events_select_policy caller) (events db)"

definition users_can_view_their_own_registrations ::
  "uuid option \<Rightarrow> event_registration \<Rightarrow> bool option" where
  "users_can_view_their_own_registrations caller r = sql_eq caller (Some (reg_user_id r))"

text \<open>
  The EXISTS subquery reads \<^verbatim>\<open>public.events\<close> as the caller, so it sees the rows that the
  events SELECT policies let through.
\<close>

definition event_creators_can_view_all_registrations ::
  "uuid option \<Rightarrow> database \<Rightarrow> event_registration \<Rightarrow> bool option" where
  "event_creators_can_view_all_registrations caller db r =
     Some (list_ex (\<lambda>e. sql_true (sql_eq (Some (ev_id e)) (Some (reg_event_id r)))
                      \<and> sql_true (sql_eq (created_by e) caller))
             (select_events caller db))"

definition users_can_register_for_events ::
  "uuid option \<Rightarrow> event_registration \<Rightarrow> bool option" where
  "users_can_register_for_events caller r = sql_eq caller (Some (reg_user_id r))"

definition users_can_cancel_their_own_registrations ::
  "uuid option \<Rightarrow> event_registration \<Rightarrow> bool option" where
  "users_can_cancel_their_own_registrations caller r = sql_eq caller (Some (reg_user_id r))"

definition users_can_delete_their_own_registrations ::
  "uuid option \<Rightarrow> event_registration \<Rightarrow> bool option" where
  "users_can_delete_their_own_registrations caller r = sql_eq caller (Some (reg_user_id r))"

definition registrations_select_policy ::
  "uuid option \<Rightarrow> database \<Rightarrow> event_registration \<Rightarrow> bool" where
  "registrations_select_policy caller db r =
     (sql_true (users_can_view_their_own_registrations caller r)
      \<or> sql_true (event_creators_can_view_all_registrations caller db r))"

definition select_event_registrations :: "uuid option \<Rightarrow> database \<Rightarrow> event_registration list" where
  "select_event_registrations caller db =
     filter (registrations_select_policy caller db) (event_registrations db)"

definition users_can_view_their_own_profile :: "uuid option \<Rightarrow> profile \<Rightarrow> bool option" where
  "users_can_view_their_own_profile caller p = sql_eq caller (Some (prof_user_id p))"

definition users_can_create_their_own_profile :: "uuid option \<Rightarrow> profile \<Rightarrow> bool option" where
  "users_can_create_their_own_profile caller p = sql_eq caller (Some (prof_user_id p))"

definition users_can_update_their_own_profile :: "uuid option \<Rightarrow> profile \<Rightarrow> bool option" where
  "users_can_update_their_own_profile caller p = sql_eq caller (Some (prof_user_id p))"

definition select_profiles :: "uuid option \<Rightarrow> database \<Rightarrow> profile list" where
  "select_profiles caller db =
     filter (\<lambda>p. sql_true (users_can_view_their_own_profile caller p)) (profiles db)"

definition users_can_view_their_own_notifications ::
  "uuid option \<Rightarrow> event_notification \<Rightarrow> bool option" where
  "users_can_view_their_own_notifications caller n = sql_eq caller (Some (ntf_user_id n))"

definition system_can_create_notifications ::
  "uuid option \<Rightarrow> event_notification \<Rightarrow> bool option" where
  "system_can_create_notifications caller n = Some True"

definition select_event_notifications :: "uuid option \<Rightarrow> database \<Rightarrow> event_notification list" where
  "select_event_notifications caller db =
     filter (\<lambda>n. sql_true (users_can_view_their_own_notifications caller n))
       (event_notifications db)"

section \<open>Constraints of the schema\<close>

definition user_exists :: "database \<Rightarrow> uuid \<Rightarrow> bool" where
  "user_exists db u = (u \<in> set (map usr_id (users db)))"

definition event_exists :: "database \<Rightarrow> uuid \<Rightarrow> bool" where
  "event_exists db i = (i \<in> set (map ev_id (events db)))"

text \<open>\<^verbatim>\<open>CHECK (status IN ('registered', 'cancelled', 'waitlist'))\<close>: a NULL status passes.\<close>

definition status_check :: "event_registration \<Rightarrow> bool" where
  "status_check r = (case status r of None \<Rightarrow> True
     | Some s \<Rightarrow> s \<in> set [''registered'', ''cancelled'', ''waitlist''])"

definition notification_type_check :: "event_notification \<Rightarrow> bool" where
  "notification_type_check n =
     (notification_type n \<in> set [''reminder'', ''change'', ''cancellation''])"

text \<open>The key of \<^verbatim>\<open>UNIQUE(event_id, user_id)\<close>.\<close>

definition reg_key :: "event_registration \<Rightarrow> uuid \<times> uuid" where
  "reg_key r = (reg_event_id r, reg_user_id r)"

text \<open>Rows of other tables that reference an event or a user.\<close>

definition event_referenced :: "database \<Rightarrow> uuid \<Rightarrow> bool" where
  "event_referenced db i =
     (i \<in> set (map reg_event_id (event_registrations db))
      \<or> i \<in> set (map ntf_event_id (event_notifications db)))"

text \<open>
  The filters \<^verbatim>\<open>.eq("id", i)\<close>, on events and on registrations, and
  \<^verbatim>\<open>.eq("user_id", u)\<close>, on profiles, of the query interface.
\<close>

definition eq_ev_id :: "uuid \<Rightarrow> event \<Rightarrow> bool" where
  "eq_ev_id i e = (ev_id e = i)"

definition eq_reg_id :: "uuid \<Rightarrow> event_registration \<Rightarrow> bool" where
  "eq_reg_id i r = (reg_id r = i)"

definition eq_prof_user_id :: "uuid \<Rightarrow> profile \<Rightarrow> bool" where
  "eq_prof_user_id u p = (prof_user_id p = u)"

text \<open>A statement without a filter selects every row.\<close>

definition all_rows :: "'r \<Rightarrow> bool" where
  "all_rows r = True"

section \<open>Triggers\<close>

text \<open>
  \<^verbatim>\<open>update_updated_at_column\<close> assigns \<^verbatim>\<open>NEW.updated_at = now()\<close> and returns NEW. It is
  attached BEFORE UPDATE, FOR EACH ROW, to events and to profiles.
\<close>

definition update_events_updated_at :: "timestamptz \<Rightarrow> event \<Rightarrow> event" where
  "update_events_updated_at now NEW = NEW\<lparr>ev_updated_at := now\<rparr>"

definition update_profiles_updated_at :: "timestamptz \<Rightarrow> profile \<Rightarrow> profile" where
  "update_profiles_updated_at now NEW = NEW\<lparr>prof_updated_at := now\<rparr>"

section \<open>Writes\<close>

text \<open>
  A write is one statement: it returns the new state, or an error and then the state is
  the old one. An INSERT checks the WITH CHECK policy on the new row, then the check and
  unique constraints, then the foreign keys. An UPDATE or DELETE reaches the rows that
  its filter selects and that its USING policy (and the SELECT policy) lets through; the
  other rows are skipped without an error, and a statement that reaches no row succeeds
  and changes nothing. An UPDATE policy without WITH CHECK applies its USING expression
  to the new row too. A generated identifier and the value of
  \<^verbatim>\<open>now()\<close> are arguments.

  An UPDATE works through the table row by row, in the order of the table. For a row it
  reaches it runs the BEFORE UPDATE trigger, checks the policy on the new row, then the
  check constraints, then the unique constraints against the other rows as they are at
  that moment (the rows before it already updated, the rows after it not yet), and stops
  at the first error. The foreign keys are checked when all rows are done.
\<close>

fun update_rows ::
  "('r \<Rightarrow> bool) \<Rightarrow> ('r \<Rightarrow> 'r) \<Rightarrow> ('r \<Rightarrow> 'r list \<Rightarrow> store_error option)
   \<Rightarrow> 'r list \<Rightarrow> 'r list \<Rightarrow> store_error + 'r list" where
  "update_rows target new check done [] = Inr done"
| "update_rows target new check done (r # rest) =
     (if target r
      then (case check (new r) (done @ rest) of
              Some err \<Rightarrow> Inl err
            | None \<Rightarrow> update_rows target new check (done @ [new r]) rest)
      else update_rows target new check (done @ [r]) rest)"

definition events_insert_row :: "event \<Rightarrow> database \<Rightarrow> store_error + database" where
  "events_insert_row row db =
     (if event_exists db (ev_id row) then Inl UniqueViolation
      else if (case created_by row of None \<Rightarrow> False | Some u \<Rightarrow> \<not> user_exists db u)
        then Inl ForeignKeyViolation
      else Inr (db\<lparr>events := events db @ [row]\<rparr>))"

definition insert_event :: "uuid option \<Rightarrow> event \<Rightarrow> database \<Rightarrow> store_error + database" where
  "insert_event caller row db =
     (if \<not> sql_true (authenticated_users_can_create_events caller row)
        then Inl PolicyViolation
      else events_insert_row row db)"

definition event_update_target :: "uuid option \<Rightarrow> (event \<Rightarrow> bool) \<Rightarrow> event \<Rightarrow> bool" where
  "event_update_target caller wh e =
     (wh e \<and> sql_true (users_can_update_their_own_events caller e)
      \<and> events_select_policy caller e)"

definition event_row_check :: "uuid option \<Rightarrow> event \<Rightarrow> event list \<Rightarrow> store_error option" where
  "event_row_check caller new others =
     (if \<not> sql_true (users_can_update_their_own_events caller new) then Some PolicyViolation
      else if ev_id new \<in> set (map ev_id others) then Some UniqueViolation
      else None)"

text \<open>
  A changed \<open>id\<close> that registrations or notifications reference, and that no row of
  the table has any more, violates their foreign key (ON UPDATE has no action).
\<close>

definition update_event ::
  "uuid option \<Rightarrow> (event \<Rightarrow> bool) \<Rightarrow> (event \<Rightarrow> event) \<Rightarrow> timestamptz \<Rightarrow> database
   \<Rightarrow> store_error + database" where
  "update_event caller wh upd now db =
     (let new = (\<lambda>e. update_events_updated_at now (upd e));
          hit = filter (event_update_target caller wh) (events db)
      in case update_rows (event_update_target caller wh) new (event_row_check caller) []
                (events db) of
           Inl err \<Rightarrow> Inl err
         | Inr rows \<Rightarrow>
             if \<exists>e \<in> set hit.
                  (case created_by (new e) of None \<Rightarrow> False | Some u \<Rightarrow> \<not> user_exists db u)
                  \<or> (ev_id (new e) \<noteq> ev_id e \<and> event_referenced db (ev_id e)
                      \<and> ev_id e \<notin> set (map ev_id rows))
             then Inl ForeignKeyViolation
             else Inr (db\<lparr>events := rows\<rparr>))"

definition event_delete_target :: "uuid option \<Rightarrow> (event \<Rightarrow> bool) \<Rightarrow> event \<Rightarrow> bool" where
  "event_delete_target caller wh e =
     (wh e \<and> sql_true (users_can_delete_their_own_events caller e)
      \<and> events_select_policy caller e)"

text \<open>
  Removing event rows removes the registrations and notifications that reference them
  (ON DELETE CASCADE); the cascade is a referential action and is not filtered by the
  policies of the referencing tables.
\<close>

definition cascade_events :: "uuid list \<Rightarrow> database \<Rightarrow> database" where
  "cascade_events ids db =
     db\<lparr>events := filter (\<lambda>e. ev_id e \<notin> set ids) (events db),
        event_registrations :=
          filter (\<lambda>r. reg_event_id r \<notin> set ids) (event_registrations db),
        event_notifications :=
          filter (\<lambda>n. ntf_event_id n \<notin> set ids) (event_notifications db)\<rparr>"

definition delete_event ::
  "uuid option \<Rightarrow> (event \<Rightarrow> bool) \<Rightarrow> database \<Rightarrow> store_error + database" where
  "delete_event caller wh db =
     Inr (cascade_events (map ev_id (filter (event_delete_target caller wh) (events db))) db)"

definition registrations_insert_row ::
  "event_registration \<Rightarrow> database \<Rightarrow> store_error + database" where
  "registrations_insert_row row db =
     (if \<not> status_check row then Inl CheckViolation
      else if reg_id row \<in> set (map reg_id (event_registrations db)) then Inl UniqueViolation
      else if reg_key row \<in> set (map reg_key (event_registrations db)) then Inl UniqueViolation
      else if \<not> event_exists db (reg_event_id row) \<or> \<not> user_exists db (reg_user_id row)
        then Inl ForeignKeyViolation
      else Inr (db\<lparr>event_registrations := event_registrations db @ [row]\<rparr>))"

definition insert_event_registration ::
  "uuid option \<Rightarrow> event_registration \<Rightarrow> database \<Rightarrow> store_error + database" where
  "insert_event_registration caller row db =
     (if \<not> sql_true (users_can_register_for_events caller row) then Inl PolicyViolation
      else registrations_insert_row row db)"

definition registration_update_target ::
  "uuid option \<Rightarrow> database \<Rightarrow> (event_registration \<Rightarrow> bool) \<Rightarrow> event_registration \<Rightarrow> bool" where
  "registration_update_target caller db wh r =
     (wh r \<and> sql_true (users_can_cancel_their_own_registrations caller r)
      \<and> registrations_select_policy caller db r)"

definition registration_row_check ::
  "uuid option \<Rightarrow> event_registration \<Rightarrow> event_registration list \<Rightarrow> store_error option" where
  "registration_row_check caller new others =
     (if \<not> sql_true (users_can_cancel_their_own_registrations caller new)
        then Some PolicyViolation
      else if \<not> status_check new then Some CheckViolation
      else if reg_id new \<in> set (map reg_id others) then Some UniqueViolation
      else if reg_key new \<in> set (map reg_key others) then Some UniqueViolation
      else None)"

definition update_event_registration ::
  "uuid option \<Rightarrow> (event_registration \<Rightarrow> bool) \<Rightarrow> (event_registration \<Rightarrow> event_registration)
   \<Rightarrow> database \<Rightarrow> store_error + database" where
  "update_event_registration caller wh upd db =
     (let hit = filter (registration_update_target caller db wh) (event_registrations db)
      in case update_rows (registration_update_target caller db wh) upd
                (registration_row_check caller) [] (event_registrations db) of
           Inl err \<Rightarrow> Inl err
         | Inr rows \<Rightarrow>
             if \<exists>r \<in> set hit. \<not> event_exists db (reg_event_id (upd r))
                  \<or> \<not> user_exists db (reg_user_id (upd r))
             then Inl ForeignKeyViolation
             else Inr (db\<lparr>event_registrations := rows\<rparr>))"

definition registration_delete_target ::
  "uuid option \<Rightarrow> database \<Rightarrow> (event_registration \<Rightarrow> bool) \<Rightarrow> event_registration \<Rightarrow> bool" where
  "registration_delete_target caller db wh r =
     (wh r \<and> sql_true (users_can_delete_their_own_registrations caller r)
      \<and> registrations_select_policy caller db r)"

definition delete_event_registration ::
  "uuid option \<Rightarrow> (event_registration \<Rightarrow> bool) \<Rightarrow> database \<Rightarrow> store_error + database" where
  "delete_event_registration caller wh db =
     Inr (db\<lparr>event_registrations :=
            filter (\<lambda>r. \<not> registration_delete_target caller db wh r) (event_registrations db)\<rparr>)"

definition profiles_insert_row :: "profile \<Rightarrow> database \<Rightarrow> store_error + database" where
  "profiles_insert_row row db =
     (if prof_id row \<in> set (map prof_id (profiles db)) then Inl UniqueViolation
      else if prof_user_id row \<in> set (map prof_user_id (profiles db)) then Inl UniqueViolation
      else if \<not> user_exists db (prof_user_id row) then Inl ForeignKeyViolation
      else Inr (db\<lparr>profiles := profiles db @ [row]\<rparr>))"

definition insert_profile :: "uuid option \<Rightarrow> profile \<Rightarrow> database \<Rightarrow> store_error + database" where
  "insert_profile caller row db =
     (if \<not> sql_true (users_can_create_their_own_profile caller row) then Inl PolicyViolation
      else profiles_insert_row row db)"

definition profile_update_target :: "uuid option \<Rightarrow> (profile \<Rightarrow> bool) \<Rightarrow> profile \<Rightarrow> bool" where
  "profile_update_target caller wh p =
     (wh p \<and> sql_true (users_can_update_their_own_profile caller p)
      \<and> sql_true (users_can_view_their_own_profile caller p))"

definition profile_row_check :: "uuid option \<Rightarrow> profile \<Rightarrow> profile list \<Rightarrow> store_error option" where
  "profile_row_check caller new others =
     (if \<not> sql_true (users_can_update_their_own_profile caller new) then Some PolicyViolation
      else if prof_id new \<in> set (map prof_id others) then Some UniqueViolation
      else if prof_user_id new \<in> set (map prof_user_id others) then Some UniqueViolation
      else None)"

definition update_profile ::
  "uuid option \<Rightarrow> (profile \<Rightarrow> bool) \<Rightarrow> (profile \<Rightarrow> profile) \<Rightarrow> timestamptz \<Rightarrow> database
   \<Rightarrow> store_error + database" where
  "update_profile caller wh upd now db =
     (let new = (\<lambda>p. update_profiles_updated_at now (upd p));
          hit = filter (profile_update_target caller wh) (profiles db)
      in case update_rows (profile_update_target caller wh) new (profile_row_check caller) []
                (profiles db) of
           Inl err \<Rightarrow> Inl err
         | Inr rows \<Rightarrow>
             if \<exists>p \<in> set hit. \<not> user_exists db (prof_user_id (new p))
             then Inl ForeignKeyViolation
             else Inr (db\<lparr>profiles := rows\<rparr>))"

text \<open>
  Row-level security is enabled on every table, so a command without a policy reaches no
  row: profiles have no DELETE policy, notifications have neither UPDATE nor DELETE.
\<close>

definition delete_profile ::
  "uuid option \<Rightarrow> (profile \<Rightarrow> bool) \<Rightarrow> database \<Rightarrow> store_error + database" where
  "delete_profile caller wh db = Inr db"

definition notifications_insert_row ::
  "event_notification \<Rightarrow> database \<Rightarrow> store_error + database" where
  "notifications_insert_row row db =
     (if \<not> notification_type_check row then Inl CheckViolation
      else if ntf_id row \<in> set (map ntf_id (event_notifications db)) then Inl UniqueViolation
      else if \<not> event_exists db (ntf_event_id row) \<or> \<not> user_exists db (ntf_user_id row)
        then Inl ForeignKeyViolation
      else Inr (db\<lparr>event_notifications := event_notifications db @ [row]\<rparr>))"

definition insert_event_notification ::
  "uuid option \<Rightarrow> event_notification \<Rightarrow> database \<Rightarrow> store_error + database" where
  "insert_event_notification caller row db =
     (if \<not> sql_true (system_can_create_notifications caller row) then Inl PolicyViolation
      else notifications_insert_row row db)"

definition update_event_notification ::
  "uuid option \<Rightarrow> (event_notification \<Rightarrow> bool) \<Rightarrow> (event_notification \<Rightarrow> event_notification)
   \<Rightarrow> database \<Rightarrow> store_error + database" where
  "update_event_notification caller wh upd db = Inr db"

definition delete_event_notification ::
  "uuid option \<Rightarrow> (event_notification \<Rightarrow> bool) \<Rightarrow> database \<Rightarrow> store_error + database" where
  "delete_event_notification caller wh db = Inr db"

section \<open>Identities\<close>

text \<open>
  \<^verbatim>\<open>handle_new_user\<close> runs AFTER INSERT on \<^verbatim>\<open>auth.users\<close>, FOR EACH ROW, as SECURITY
  DEFINER: its INSERT into profiles is made by the owner of the function, whom the
  policies do not filter. The columns it does not name take their defaults.
\<close>

definition default_notification_preferences :: jsonb where
  "default_notification_preferences =
     [(''email'', ''true''), (''push'', ''false''), (''reminder_times'', ''[24, 1]'')]"

definition handle_new_user ::
  "uuid \<Rightarrow> timestamptz \<Rightarrow> user \<Rightarrow> database \<Rightarrow> store_error + database" where
  "handle_new_user gen_random_uuid now NEW db =
     profiles_insert_row
       \<lparr>prof_id = gen_random_uuid,
        prof_user_id = usr_id NEW,
        display_name = coalesce (json_text (raw_user_meta_data NEW) ''display_name'')
                         (usr_email NEW),
        email = usr_email NEW,
        avatar_url = None,
        notification_preferences = Some default_notification_preferences,
        prof_created_at = now,
        prof_updated_at = now\<rparr> db"

text \<open>
  Creating an identity inserts the row into \<^verbatim>\<open>auth.users\<close> and fires the trigger in the
  same statement: an error in the trigger aborts the insert.
\<close>

definition on_auth_user_created ::
  "user \<Rightarrow> uuid \<Rightarrow> timestamptz \<Rightarrow> database \<Rightarrow> store_error + database" where
  "on_auth_user_created NEW gen_random_uuid now db =
     (if user_exists db (usr_id NEW) then Inl UniqueViolation
      else handle_new_user gen_random_uuid now NEW (db\<lparr>users := users db @ [NEW]\<rparr>))"

text \<open>
  Removing an identity cascades to its events (and through them to their registrations
  and notifications), and to its registrations, profile and notifications.
\<close>

definition delete_user :: "uuid \<Rightarrow> database \<Rightarrow> store_error + database" where
  "delete_user u db =
     (let own = map ev_id (filter (\<lambda>e. created_by e = Some u) (events db));
          db1 = cascade_events own db
      in Inr (db1\<lparr>users := filter (\<lambda>x. usr_id x \<noteq> u) (users db1),
                 event_registrations :=
                   filter (\<lambda>r. reg_user_id r \<noteq> u) (event_registrations db1),
                 profiles := filter (\<lambda>p. prof_user_id p \<noteq> u) (profiles db1),
                 event_notifications :=
                   filter (\<lambda>n. ntf_user_id n \<noteq> u) (event_notifications db1)\<rparr>))"

section \<open>Histories of the store\<close>

datatype db_op =
    InsertEvent "uuid option" event
  | UpdateEvent "uuid option" "event \<Rightarrow> bool" "event \<Rightarrow> event" timestamptz
  | DeleteEvent "uuid option" "event \<Rightarrow> bool"
  | InsertRegistration "uuid option" event_registration
  | UpdateRegistration "uuid option" "event_registration \<Rightarrow> bool"
      "event_registration \<Rightarrow> event_registration"
  | DeleteRegistration "uuid option" "event_registration \<Rightarrow> bool"
  | InsertProfile "uuid option" profile
  | UpdateProfile "uuid option" "profile \<Rightarrow> bool" "profile \<Rightarrow> profile" timestamptz
  | DeleteProfile "uuid option" "profile \<Rightarrow> bool"
  | InsertNotification "uuid option" event_notification
  | UpdateNotification "uuid option" "event_notification \<Rightarrow> bool"
      "event_notification \<Rightarrow> event_notification"
  | DeleteNotification "uuid option" "event_notification \<Rightarrow> bool"
  | CreateUser user uuid timestamptz
  | DeleteUser uuid

fun exec :: "db_op \<Rightarrow> database \<Rightarrow> store_error + database" where
  "exec (InsertEvent c row) db = insert_event c row db"
| "exec (UpdateEvent c wh upd now) db = update_event c wh upd now db"
| "exec (DeleteEvent c wh) db = delete_event c wh db"
| "exec (InsertRegistration c row) db = insert_event_registration c row db"
| "exec (UpdateRegistration c wh upd) db = update_event_registration c wh upd db"
| "exec (DeleteRegistration c wh) db = delete_event_registration c wh db"
| "exec (InsertProfile c row) db = insert_profile c row db"
| "exec (UpdateProfile c wh upd now) db = update_profile c wh upd now db"
| "exec (DeleteProfile c wh) db = delete_profile c wh db"
| "exec (InsertNotification c row) db = insert_event_notification c row db"
| "exec (UpdateNotification c wh upd) db = update_event_notification c wh upd db"
| "exec (DeleteNotification c wh) db = delete_event_notification c wh db"
| "exec (CreateUser u i now) db = on_auth_user_created u i now db"
| "exec (DeleteUser u) db = delete_user u db"

text \<open>The state after a statement: a rejected statement leaves the state as it was.\<close>

definition apply_op :: "db_op \<Rightarrow> database \<Rightarrow> database" where
  "apply_op op db = (case exec op db of Inl _ \<Rightarrow> db | Inr db' \<Rightarrow> db')"

fun run :: "db_op list \<Rightarrow> database \<Rightarrow> database" where
  "run [] db = db"
| "run (op # ops) db = run ops (apply_op op db)"

section \<open>The event-details component\<close>

text \<open>
  The component receives the selected event and the identity of the session
  (\<open>currentUserId\<close>, absent when undefined) and keeps the caller's registration, the count
  of registrations and the \<open>loading\<close> flag. Its requests to the store are made with the
  session's identity, so the policies filter them for \<open>currentUserId\<close>. The store answers
  every request; the messages shown to the user are collected in \<open>toasts\<close>.
\<close>

datatype toast =
    ToastSuccess string
  | ToastError store_error
  | ToastErrorText string

record details_props =
  prop_event :: "event option"
  currentUserId :: "uuid option"

record details_state =
  registration :: "event_registration option"
  registrationCount :: nat
  loading :: bool
  toasts :: "toast list"

definition initial_details_state :: details_state where
  "initial_details_state =
     \<lparr>registration = None, registrationCount = 0, loading = False, toasts = []\<rparr>"

text \<open>\<^verbatim>\<open>.single()\<close> yields the row when the result has exactly one row, and null otherwise.\<close>

definition single :: "'a list \<Rightarrow> 'a option" where
  "single xs = (case xs of [x] \<Rightarrow> Some x | _ \<Rightarrow> None)"

definition fetchRegistrationInfo ::
  "details_props \<Rightarrow> database \<Rightarrow> details_state \<Rightarrow> details_state" where
  "fetchRegistrationInfo props db st =
     (case prop_event props of None \<Rightarrow> st
      | Some ev \<Rightarrow>
        (case currentUserId props of None \<Rightarrow> st
         | Some uid \<Rightarrow>
           st\<lparr>registration :=
                single (filter (\<lambda>r. reg_event_id r = ev_id ev \<and> reg_user_id r = uid
                                  \<and> status r = Some ''registered'')
                          (select_event_registrations (Some uid) db)),
              registrationCount :=
                length (filter (\<lambda>r. reg_event_id r = ev_id ev
                                  \<and> status r = Some ''registered'')
                          (select_event_registrations (Some uid) db))\<rparr>))"

definition handleRegister ::
  "details_props \<Rightarrow> uuid \<Rightarrow> timestamptz \<Rightarrow> details_state \<times> database
   \<Rightarrow> details_state \<times> database" where
  "handleRegister props gen_random_uuid now sd =
     (case prop_event props of None \<Rightarrow> sd
      | Some ev \<Rightarrow>
        (case currentUserId props of None \<Rightarrow> sd
         | Some uid \<Rightarrow>
           (case insert_event_registration (Some uid)
                   \<lparr>reg_id = gen_random_uuid, reg_event_id = ev_id ev, reg_user_id = uid,
                    registered_at = now, status = Some ''registered''\<rparr> (snd sd) of
              Inl err \<Rightarrow>
                ((fst sd)\<lparr>toasts := toasts (fst sd) @ [ToastError err], loading := False\<rparr>,
                 snd sd)
            | Inr db' \<Rightarrow>
                (fetchRegistrationInfo props db'
                   ((fst sd)\<lparr>toasts := toasts (fst sd)
                                @ [ToastSuccess ''Successfully registered for the event!''],
                             loading := False\<rparr>),
                 db'))))"

definition handleUnregister ::
  "details_props \<Rightarrow> details_state \<times> database \<Rightarrow> details_state \<times> database" where
  "handleUnregister props sd =
     (case registration (fst sd) of None \<Rightarrow> sd
      | Some reg \<Rightarrow>
        (case currentUserId props of None \<Rightarrow> sd
         | Some uid \<Rightarrow>
           (case delete_event_registration (Some uid) (eq_reg_id (reg_id reg)) (snd sd) of
              Inl err \<Rightarrow>
                ((fst sd)\<lparr>toasts := toasts (fst sd) @ [ToastError err], loading := False\<rparr>,
                 snd sd)
            | Inr db' \<Rightarrow>
                (fetchRegistrationInfo props db'
                   ((fst sd)\<lparr>toasts := toasts (fst sd)
                                @ [ToastSuccess ''Successfully unregistered from the event.''],
                             loading := False\<rparr>),
                 db'))))"

text \<open>
  The values the component computes when it renders. JavaScript's \<^verbatim>\<open>===\<close> holds between
  two present, equal identifiers; \<^verbatim>\<open>&&\<close> treats null, false and the number 0 as false.
\<close>

definition isEventCreator :: "details_props \<Rightarrow> event \<Rightarrow> bool" where
  "isEventCreator props ev =
     (case currentUserId props of None \<Rightarrow> False
      | Some uid \<Rightarrow> (case created_by ev of None \<Rightarrow> False | Some c \<Rightarrow> uid = c))"

definition handleDeleteEvent ::
  "details_props \<Rightarrow> details_state \<times> database \<Rightarrow> details_state \<times> database" where
  "handleDeleteEvent props sd =
     (case prop_event props of None \<Rightarrow> sd
      | Some ev \<Rightarrow>
        (case currentUserId props of None \<Rightarrow> sd
         | Some uid \<Rightarrow>
           if \<not> isEventCreator props ev
           then ((fst sd)\<lparr>toasts := toasts (fst sd)
                              @ [ToastErrorText ''You can only delete events you created.'']\<rparr>,
                 snd sd)
           else (case delete_event (Some uid) (eq_ev_id (ev_id ev)) (snd sd) of
              Inl err \<Rightarrow>
                ((fst sd)\<lparr>toasts := toasts (fst sd) @ [ToastError err], loading := False\<rparr>,
                 snd sd)
            | Inr db' \<Rightarrow>
                ((fst sd)\<lparr>toasts := toasts (fst sd)
                             @ [ToastSuccess ''Event deleted successfully.''],
                          loading := False\<rparr>,
                 db'))))"

definition canRegister :: "details_props \<Rightarrow> details_state \<Rightarrow> event \<Rightarrow> bool" where
  "canRegister props st ev =
     (registration st = None \<and> is_public ev = Some True \<and> \<not> isEventCreator props ev)"

definition canUnregister :: "details_state \<Rightarrow> bool" where
  "canUnregister st =
     (case registration st of None \<Rightarrow> False | Some reg \<Rightarrow> status reg = Some ''registered'')"

definition isFull :: "details_state \<Rightarrow> event \<Rightarrow> bool" where
  "isFull st ev =
     (case max_attendees ev of None \<Rightarrow> False
      | Some m \<Rightarrow> m \<noteq> 0 \<and> int (registrationCount st) \<ge> sint m)"

text \<open>The Register button is rendered when \<^verbatim>\<open>canRegister && !isFull\<close>.\<close>

definition register_button :: "details_props \<Rightarrow> details_state \<Rightarrow> bool" where
  "register_button props st =
     (case prop_event props of None \<Rightarrow> False
      | Some ev \<Rightarrow> canRegister props st ev \<and> \<not> isFull st ev)"

definition event_full_button :: "details_props \<Rightarrow> details_state \<Rightarrow> bool" where
  "event_full_button props st =
     (case prop_event props of None \<Rightarrow> False
      | Some ev \<Rightarrow> canRegister props st ev \<and> isFull st ev)"

definition unregister_button :: "details_props \<Rightarrow> details_state \<Rightarrow> bool" where
  "unregister_button props st =
     (case prop_event props of None \<Rightarrow> False | Some ev \<Rightarrow> canUnregister st)"

text \<open>
  The Register action of the interface: the handler runs only from the rendered, enabled
  button.
\<close>

definition click_register ::
  "details_props \<Rightarrow> uuid \<Rightarrow> timestamptz \<Rightarrow> details_state \<times> database
   \<Rightarrow> details_state \<times> database" where
  "click_register props gen_random_uuid now sd =
     (if register_button props (fst sd) \<and> \<not> loading (fst sd)
      then handleRegister props gen_random_uuid now sd else sd)"

definition click_unregister ::
  "details_props \<Rightarrow> details_state \<times> database \<Rightarrow> details_state \<times> database" where
  "click_unregister props sd =
     (if unregister_button props (fst sd) \<and> \<not> loading (fst sd)
      then handleUnregister props sd else sd)"

text \<open>
  One registration attempt, from start to end, in a session of its own. The component is
  handed the event by its parent; here it is the row as a read of the events table
  returns it to the user. The component loads the registration information when it
  opens, and the user presses Register if the button is there. The attempt yields the
  store's new state.
\<close>

definition register_attempt :: "uuid \<Rightarrow> uuid \<Rightarrow> uuid \<Rightarrow> timestamptz \<Rightarrow> database \<Rightarrow> database" where
  "register_attempt uid eid gen_random_uuid now db =
     (let props = \<lparr>prop_event = find (eq_ev_id eid) (select_events (Some uid) db),
                   currentUserId = Some uid\<rparr>
      in snd (click_register props gen_random_uuid now
                (fetchRegistrationInfo props db initial_details_state, db)))"

text \<open>The rows with \<^verbatim>\<open>status = 'registered'\<close> of one event.\<close>

definition registered_rows :: "uuid \<Rightarrow> database \<Rightarrow> event_registration list" where
  "registered_rows eid db =
     filter (\<lambda>r. reg_event_id r = eid \<and> status r = Some ''registered'')
       (event_registrations db)"

section \<open>A scenario\<close>

text \<open>
  Creator 1 owns the public event 10 with room for one attendee; users 2 and 3 are two
  other identities.
\<close>

definition scn_user :: "uuid \<Rightarrow> user" where
  "scn_user u = \<lparr>usr_id = u, usr_email = None, raw_user_meta_data = None\<rparr>"

definition scn_event :: event where
  "scn_event = \<lparr>ev_id = 10, title = ''Workshop'', description = None, start_time = 5000,
     end_time = 6000, location = None, max_attendees = Some 1, created_by = Some 1,
     ev_created_at = 100, ev_updated_at = 100, is_public = Some True,
     event_type = Some ''general'', metadata = Some []\<rparr>"

definition scn_db :: database where
  "scn_db = \<lparr>users = [scn_user 1, scn_user 2, scn_user 3], events = [scn_event],
     event_registrations = [], profiles = [], event_notifications = []\<rparr>"

definition scn_registration :: "uuid \<Rightarrow> uuid \<Rightarrow> event_registration" where
  "scn_registration i u = \<lparr>reg_id = i, reg_event_id = 10, reg_user_id = u,
     registered_at = 200, status = Some ''registered''\<rparr>"

definition scn_notification :: "uuid \<Rightarrow> uuid \<Rightarrow> event_notification" where
  "scn_notification i u = \<lparr>ntf_id = i, ntf_event_id = 10, ntf_user_id = u,
     notification_type = ''reminder'', message = ''Soon'', scheduled_for = 4000,
     sent_at = None, ntf_created_at = 300\<rparr>"

definition scn_props :: "uuid \<Rightarrow> details_props" where
  "scn_props u = \<lparr>prop_event = Some scn_event, currentUserId = Some u\<rparr>"

definition scn_retitle :: "event \<Rightarrow> event" where
  "scn_retitle e = e\<lparr>title := ''Seminar''\<rparr>"

definition scn_restamp :: "event \<Rightarrow> event" where
  "scn_restamp e = e\<lparr>title := ''Seminar'', ev_updated_at := 7\<rparr>"

definition scn_steal :: "event_registration \<Rightarrow> event_registration" where
  "scn_steal r = r\<lparr>reg_user_id := 3\<rparr>"

definition scn_future_event :: event where
  "scn_future_event = scn_event\<lparr>ev_id := 13, ev_updated_at := 9000\<rparr>"

definition scn_profile :: profile where
  "scn_profile = \<lparr>prof_id = 52, prof_user_id = 2, display_name = None, email = None,
     avatar_url = None, notification_preferences = Some default_notification_preferences,
     prof_created_at = 20, prof_updated_at = 20\<rparr>"

definition scn_rename :: "profile \<Rightarrow> profile" where
  "scn_rename p = p\<lparr>display_name := Some ''Ann'', prof_updated_at := 7\<rparr>"

definition scn_private_event :: event where
  "scn_private_event = scn_event\<lparr>ev_id := 11, is_public := Some False\<rparr>"

definition scn_other_event :: event where
  "scn_other_event = scn_event\<lparr>ev_id := 12, created_by := Some 2\<rparr>"

definition scn_new_user :: user where
  "scn_new_user = \<lparr>usr_id = 4, usr_email = Some ''ann@example.org'',
     raw_user_meta_data = Some [(''display_name'', ''Ann'')]\<rparr>"

definition scn_db_cascade :: database where
  "scn_db_cascade = scn_db\<lparr>events := [scn_event, scn_other_event],
     event_registrations :=
       [scn_registration 100 2, (scn_registration 102 3)\<lparr>reg_event_id := 12\<rparr>],
     event_notifications :=
       [scn_notification 200 2, (scn_notification 201 3)\<lparr>ntf_event_id := 12\<rparr>]\<rparr>"

definition scn_db_private :: database where
  "scn_db_private = scn_db\<lparr>events := [scn_event\<lparr>is_public := Some False\<rparr>]\<rparr>"

definition scn_db_registered :: database where
  "scn_db_registered = scn_db\<lparr>event_registrations := [scn_registration 100 2]\<rparr>"

definition scn_history :: "db_op list" where
  "scn_history =
     [CreateUser (scn_user 1) 51 10, CreateUser (scn_user 2) 52 20,
      InsertEvent (Some 1) scn_event,
      InsertRegistration (Some 2) (scn_registration 100 2),
      InsertRegistration (Some 2) (scn_registration 101 2)]"

section \<open>Writes that a policy keeps out\<close>





section \<open>Evaluation of the definitions\<close>

lemmas value_defs = json_text_def coalesce_def sql_eq_def sql_true_def
lemmas policy_defs =
  public_events_are_viewable_by_everyone_def users_can_view_their_own_events_def
  authenticated_users_can_create_events_def users_can_update_their_own_events_def
  users_can_delete_their_own_events_def events_select_policy_def select_events_def
  users_can_view_their_own_registrations_def event_creators_can_view_all_registrations_def
  users_can_register_for_events_def users_can_cancel_their_own_registrations_def
  users_can_delete_their_own_registrations_def registrations_select_policy_def
  select_event_registrations_def users_can_view_their_own_profile_def
  users_can_create_their_own_profile_def users_can_update_their_own_profile_def
  select_profiles_def users_can_view_their_own_notifications_def
  system_can_create_notifications_def select_event_notifications_def
lemmas constraint_defs =
  user_exists_def event_exists_def status_check_def notification_type_check_def reg_key_def
  event_referenced_def eq_ev_id_def eq_reg_id_def eq_prof_user_id_def
lemmas write_defs =
  update_events_updated_at_def update_profiles_updated_at_def events_insert_row_def
  insert_event_def event_update_target_def event_row_check_def update_event_def
  registration_row_check_def profile_row_check_def event_delete_target_def
  cascade_events_def delete_event_def registrations_insert_row_def
  insert_event_registration_def registration_update_target_def
  update_event_registration_def registration_delete_target_def
  delete_event_registration_def profiles_insert_row_def insert_profile_def
  profile_update_target_def update_profile_def delete_profile_def
  notifications_insert_row_def insert_event_notification_def
  update_event_notification_def delete_event_notification_def
  default_notification_preferences_def handle_new_user_def on_auth_user_created_def
  delete_user_def apply_op_def
lemmas details_defs =
  initial_details_state_def single_def fetchRegistrationInfo_def handleRegister_def
  handleUnregister_def isEventCreator_def handleDeleteEvent_def canRegister_def
  canUnregister_def isFull_def register_button_def event_full_button_def
  unregister_button_def click_register_def click_unregister_def register_attempt_def
  registered_rows_def
lemmas scn_defs =
  scn_user_def scn_event_def scn_db_def scn_registration_def scn_notification_def
  scn_props_def scn_retitle_def scn_rename_def scn_private_event_def
  scn_db_registered_def scn_history_def empty_database_def scn_other_event_def
  scn_new_user_def scn_db_cascade_def scn_restamp_def
  scn_future_event_def scn_profile_def scn_steal_def scn_db_private_def all_rows_def


section \<open>Reading events\<close>

lemma sql_true_eq: "sql_true (sql_eq a b) \<longleftrightarrow> (\<exists>x. a = Some x \<and> b = Some x)"
  by (auto simp: sql_true_def sql_eq_def split: option.splits)

text \<open>
  C2: a read of events through the policies returns a row exactly when the row is in the
  table and either its \<open>is_public\<close> is true or the caller is its creator; in
  particular an event with \<open>is_public = false\<close> is never returned to a caller whose
  identity differs from \<open>created_by\<close>.
\<close>

theorem events_read_policy:
  "(e \<in> set (select_events caller db) \<longleftrightarrow>
      e \<in> set (events db)
      \<and> (is_public e = Some True \<or> (\<exists>u. caller = Some u \<and> created_by e = Some u)))
   \<and> (is_public e = Some False \<and> caller \<noteq> created_by e
        \<longrightarrow> e \<notin> set (select_events caller db))"
  by (auto simp: select_events_def events_select_policy_def sql_true_eq
      public_events_are_viewable_by_everyone_def users_can_view_their_own_events_def)

theorem events_read_policy_witness:
  "is_public scn_private_event = Some False
   \<and> Some 2 \<noteq> created_by scn_private_event
   \<and> scn_private_event \<in> set (events (scn_db\<lparr>events := [scn_event, scn_private_event]\<rparr>))
   \<and> scn_private_event
       \<notin> set (select_events (Some 2) (scn_db\<lparr>events := [scn_event, scn_private_event]\<rparr>))"
  using events_read_policy [of scn_private_event "Some 2"
      "scn_db\<lparr>events := [scn_event, scn_private_event]\<rparr>"]
  by (simp add: scn_defs)

section \<open>Updates row by row\<close>

lemma update_rows_shape:
  "update_rows t n c done xs = Inr ys
   \<Longrightarrow> ys = done @ map (\<lambda>r. if t r then n r else r) xs"
proof (induction xs arbitrary: "done")
  case Nil
  then show ?case by simp
next
  case (Cons r rest)
  show ?case
  proof (cases "t r")
    case False
    with Cons.prems have "update_rows t n c (done @ [r]) rest = Inr ys" by simp
    from Cons.IH [OF this] False show ?thesis by simp
  next
    case True
    with Cons.prems have "update_rows t n c (done @ [n r]) rest = Inr ys"
      by (auto split: option.splits)
    from Cons.IH [OF this] True show ?thesis by simp
  qed
qed




lemma update_rows_distinct:
  assumes "update_rows t n c done xs = Inr ys"
    and "distinct (map k (done @ xs))"
    and "\<And>r others. c r others = None \<Longrightarrow> k r \<notin> set (map k others)"
  shows "distinct (map k ys)"
  using assms(1,2)
proof (induction xs arbitrary: "done")
  case Nil
  then show ?case by simp
next
  case (Cons r rest)
  show ?case
  proof (cases "t r")
    case False
    with Cons.prems have "update_rows t n c (done @ [r]) rest = Inr ys" by simp
    moreover from Cons.prems(2) have "distinct (map k ((done @ [r]) @ rest))" by simp
    ultimately show ?thesis by (rule Cons.IH)
  next
    case True
    with Cons.prems(1) have ok: "c (n r) (done @ rest) = None"
      and run: "update_rows t n c (done @ [n r]) rest = Inr ys"
      by (auto split: option.splits)
    from assms(3) [OF ok] have fresh: "k (n r) \<notin> set (map k (done @ rest))" .
    from Cons.prems(2) have "distinct (map k (done @ rest))" by simp
    with fresh have "distinct (map k ((done @ [n r]) @ rest))" by auto
    with run show ?thesis by (rule Cons.IH)
  qed
qed


section \<open>Uniqueness of registrations\<close>


lemma distinct_map_filter_key:
  "distinct (map f xs) \<Longrightarrow> distinct (map f (filter P xs))"
  by (induction xs) auto

lemma distinct_key_at_most_one:
  "distinct (map f xs) \<Longrightarrow> length (filter (\<lambda>x. f x = k) xs) \<le> 1"
proof (induction xs)
  case Nil
  then show ?case by simp
next
  case (Cons x xs)
  show ?case
  proof (cases "f x = k")
    case True
    with Cons.prems have "k \<notin> f ` set xs" by auto
    then have "filter (\<lambda>x. f x = k) xs = []" by (auto simp: filter_empty_conv)
    with True show ?thesis by simp
  next
    case False
    with Cons show ?thesis by simp
  qed
qed

lemma regs_cascade_events:
  "event_registrations (cascade_events ids db)
     = filter (\<lambda>r. reg_event_id r \<notin> set ids) (event_registrations db)"
  by (simp add: cascade_events_def)

lemma reg_unique_insert_event:
  "insert_event c row db = Inr db' \<Longrightarrow> event_registrations db' = event_registrations db"
  by (auto simp: insert_event_def events_insert_row_def split: if_splits)

lemma reg_unique_update_event:
  "update_event c wh upd now db = Inr db' \<Longrightarrow> event_registrations db' = event_registrations db"
  by (auto simp: update_event_def Let_def split: if_splits sum.splits)

lemma reg_unique_insert_registration:
  assumes "insert_event_registration c row db = Inr db'"
    and "distinct (map reg_key (event_registrations db))"
  shows "distinct (map reg_key (event_registrations db'))"
  using assms
  by (auto simp: insert_event_registration_def registrations_insert_row_def split: if_splits)

lemma registration_row_check_key:
  "registration_row_check c r others = None \<Longrightarrow> reg_key r \<notin> set (map reg_key others)"
  by (simp add: registration_row_check_def split: if_splits)

lemma reg_unique_update_registration:
  assumes "update_event_registration c wh upd db = Inr db'"
    and "distinct (map reg_key (event_registrations db))"
  shows "distinct (map reg_key (event_registrations db'))"
proof -
  from assms(1) obtain rows where
    run: "update_rows (registration_update_target c db wh) upd (registration_row_check c) []
            (event_registrations db) = Inr rows"
    and db': "db' = db\<lparr>event_registrations := rows\<rparr>"
    by (auto simp: update_event_registration_def Let_def split: if_splits sum.splits)
  from assms(2) have "distinct (map reg_key ([] @ event_registrations db))" by simp
  from update_rows_distinct [OF run this registration_row_check_key]
  show ?thesis by (simp add: db')
qed

lemma reg_unique_profile_ops:
  "insert_profile c p db = Inr db' \<Longrightarrow> event_registrations db' = event_registrations db"
  "update_profile c whp updp now db = Inr db' \<Longrightarrow> event_registrations db' = event_registrations db"
  by (auto simp: insert_profile_def profiles_insert_row_def update_profile_def Let_def
      split: if_splits sum.splits)

lemma reg_unique_insert_notification:
  "insert_event_notification c n db = Inr db' \<Longrightarrow> event_registrations db' = event_registrations db"
  by (auto simp: insert_event_notification_def notifications_insert_row_def split: if_splits)

lemma reg_unique_create_user:
  "on_auth_user_created u i now db = Inr db' \<Longrightarrow> event_registrations db' = event_registrations db"
  by (auto simp: on_auth_user_created_def handle_new_user_def profiles_insert_row_def
      split: if_splits)

lemma reg_unique_exec:
  assumes "exec op db = Inr db'" and "distinct (map reg_key (event_registrations db))"
  shows "distinct (map reg_key (event_registrations db'))"
proof (cases op)
  case (InsertEvent c row)
  with assms show ?thesis using reg_unique_insert_event by auto
next
  case (UpdateEvent c wh upd now)
  with assms show ?thesis using reg_unique_update_event by auto
next
  case (DeleteEvent c wh)
  with assms show ?thesis
    by (auto simp: delete_event_def regs_cascade_events intro: distinct_map_filter_key)
next
  case (InsertRegistration c row)
  with assms show ?thesis using reg_unique_insert_registration by auto
next
  case (UpdateRegistration c wh upd)
  with assms show ?thesis using reg_unique_update_registration by auto
next
  case (DeleteRegistration c wh)
  with assms show ?thesis
    by (auto simp: delete_event_registration_def intro: distinct_map_filter_key)
next
  case (InsertProfile c row)
  with assms show ?thesis using reg_unique_profile_ops(1) by auto
next
  case (UpdateProfile c wh upd now)
  with assms show ?thesis using reg_unique_profile_ops(2) by auto
next
  case (DeleteProfile c wh)
  with assms show ?thesis by (auto simp: delete_profile_def)
next
  case (InsertNotification c row)
  with assms show ?thesis using reg_unique_insert_notification by auto
next
  case (UpdateNotification c wh upd)
  with assms show ?thesis by (auto simp: update_event_notification_def)
next
  case (DeleteNotification c wh)
  with assms show ?thesis by (auto simp: delete_event_notification_def)
next
  case (CreateUser u i now)
  with assms show ?thesis using reg_unique_create_user by auto
next
  case (DeleteUser u)
  with assms show ?thesis
    by (auto simp: delete_user_def Let_def regs_cascade_events intro: distinct_map_filter_key)
qed

lemma reg_unique_apply_op:
  "distinct (map reg_key (event_registrations db))
   \<Longrightarrow> distinct (map reg_key (event_registrations (apply_op op db)))"
  by (cases "exec op db") (auto simp: apply_op_def dest: reg_unique_exec)

lemma reg_unique_run:
  "distinct (map reg_key (event_registrations db))
   \<Longrightarrow> distinct (map reg_key (event_registrations (run ops db)))"
  by (induction ops arbitrary: db) (auto intro: reg_unique_apply_op)

lemma duplicate_registration_rejected:
  "reg_key row \<in> set (map reg_key (event_registrations db))
   \<Longrightarrow> insert_event_registration c row db \<in> {Inl PolicyViolation, Inl CheckViolation, Inl UniqueViolation}"
  by (auto simp: insert_event_registration_def registrations_insert_row_def)

text \<open>
  C3: in every state that a history of statements reaches from the empty store, each pair
  (event_id, user_id) has at most one row in event_registrations; an insert of a row
  whose pair is already present is rejected with an error and the state stays as it was.
\<close>

theorem registration_pair_unique:
  "length (filter (\<lambda>r. reg_event_id r = eid \<and> reg_user_id r = uid)
             (event_registrations (run ops empty_database))) \<le> 1
   \<and> ((\<exists>r \<in> set (event_registrations db).
          reg_event_id r = reg_event_id row \<and> reg_user_id r = reg_user_id row)
        \<longrightarrow> (\<exists>err. insert_event_registration caller row db = Inl err)
            \<and> apply_op (InsertRegistration caller row) db = db)"
proof
  have "distinct (map reg_key (event_registrations (run ops empty_database)))"
    by (rule reg_unique_run) (simp add: empty_database_def)
  from distinct_key_at_most_one [OF this, of "(eid, uid)"]
  show "length (filter (\<lambda>r. reg_event_id r = eid \<and> reg_user_id r = uid)
             (event_registrations (run ops empty_database))) \<le> 1"
    by (simp add: reg_key_def)
next
  show "(\<exists>r \<in> set (event_registrations db).
          reg_event_id r = reg_event_id row \<and> reg_user_id r = reg_user_id row)
        \<longrightarrow> (\<exists>err. insert_event_registration caller row db = Inl err)
            \<and> apply_op (InsertRegistration caller row) db = db"
  proof
    assume "\<exists>r \<in> set (event_registrations db).
          reg_event_id r = reg_event_id row \<and> reg_user_id r = reg_user_id row"
    then obtain r where "r \<in> set (event_registrations db)" and "reg_key r = reg_key row"
      by (auto simp: reg_key_def)
    then have "reg_key row \<in> set (map reg_key (event_registrations db))"
      by (metis image_eqI set_map)
    from duplicate_registration_rejected [OF this, of caller]
    show "(\<exists>err. insert_event_registration caller row db = Inl err)
            \<and> apply_op (InsertRegistration caller row) db = db"
      by (auto simp: apply_op_def)
  qed
qed


theorem registration_pair_unique_witness:
  "(\<exists>r \<in> set (event_registrations scn_db_registered).
      reg_event_id r = reg_event_id (scn_registration 101 2)
      \<and> reg_user_id r = reg_user_id (scn_registration 101 2))
   \<and> event_registrations (run scn_history empty_database) = [scn_registration 100 2]
   \<and> length (filter (\<lambda>r. reg_event_id r = 10 \<and> reg_user_id r = 2)
               (event_registrations (run scn_history empty_database))) \<le> 1
   \<and> insert_event_registration (Some 2) (scn_registration 101 2) scn_db_registered
       = Inl UniqueViolation
   \<and> apply_op (InsertRegistration (Some 2) (scn_registration 101 2)) scn_db_registered
       = scn_db_registered"
  using registration_pair_unique [of 10 2 scn_history scn_db_registered
      "scn_registration 101 2" "Some 2"]
  by (simp add: scn_defs write_defs constraint_defs policy_defs value_defs)

section \<open>Profiles of new identities\<close>

lemma profiles_insert_row_fresh:
  assumes "profiles_insert_row row db = Inr db'"
  shows "profiles db' = profiles db @ [row]
         \<and> filter (\<lambda>p. prof_user_id p = prof_user_id row) (profiles db) = []"
proof -
  from assms have new: "prof_user_id row \<notin> set (map prof_user_id (profiles db))"
    and eq: "db' = db\<lparr>profiles := profiles db @ [row]\<rparr>"
    by (auto simp: profiles_insert_row_def split: if_splits)
  from new have "filter (\<lambda>p. prof_user_id p = prof_user_id row) (profiles db) = []"
    unfolding filter_empty_conv set_map by (metis image_eqI)
  with eq show ?thesis by simp
qed

text \<open>
  C4: when an identity has been created, the profiles table holds exactly one row whose
  \<open>user_id\<close> is the new identity; its \<open>email\<close> is the identity's email and its
  \<open>display_name\<close> is the \<open>display_name\<close> of the identity's metadata when that is
  present, and the identity's email otherwise.
\<close>

theorem new_identity_profile:
  assumes "on_auth_user_created NEW gen_random_uuid now db = Inr db'"
  shows "\<exists>p. filter (\<lambda>p. prof_user_id p = usr_id NEW) (profiles db') = [p]
           \<and> email p = usr_email NEW
           \<and> display_name p =
               (case json_text (raw_user_meta_data NEW) ''display_name'' of
                  Some d \<Rightarrow> Some d | None \<Rightarrow> usr_email NEW)"
proof -
  let ?row = "\<lparr>prof_id = gen_random_uuid, prof_user_id = usr_id NEW,
        display_name = coalesce (json_text (raw_user_meta_data NEW) ''display_name'')
                         (usr_email NEW),
        email = usr_email NEW, avatar_url = None,
        notification_preferences = Some default_notification_preferences,
        prof_created_at = now, prof_updated_at = now\<rparr>"
  from assms have ins: "profiles_insert_row ?row (db\<lparr>users := users db @ [NEW]\<rparr>) = Inr db'"
    by (auto simp: on_auth_user_created_def handle_new_user_def split: if_splits)
  from profiles_insert_row_fresh [OF ins]
  have "filter (\<lambda>p. prof_user_id p = usr_id NEW) (profiles db') = [?row]"
    by simp
  then show ?thesis
    by (simp add: coalesce_def)
qed

theorem new_identity_profile_witness:
  "\<exists>db'. on_auth_user_created scn_new_user 54 400 scn_db = Inr db'
     \<and> (\<exists>p. filter (\<lambda>p. prof_user_id p = 4) (profiles db') = [p]
           \<and> email p = Some ''ann@example.org'' \<and> display_name p = Some ''Ann'')"
proof -
  have h: "on_auth_user_created scn_new_user 54 400 scn_db
    = Inr (scn_db\<lparr>users := users scn_db @ [scn_new_user],
                  profiles := [\<lparr>prof_id = 54, prof_user_id = 4, display_name = Some ''Ann'',
                    email = Some ''ann@example.org'', avatar_url = None,
                    notification_preferences = Some default_notification_preferences,
                    prof_created_at = 400, prof_updated_at = 400\<rparr>]\<rparr>)"
    by (simp add: scn_defs on_auth_user_created_def handle_new_user_def
        profiles_insert_row_def constraint_defs value_defs)
  from new_identity_profile [OF h] show ?thesis
    using h by (simp add: scn_defs value_defs)
qed

section \<open>Deleting an event\<close>

lemma delete_hit_ids:
  assumes "e \<in> set (events db)"
    and "sql_true (users_can_delete_their_own_events caller e)"
  shows "set (map ev_id (filter (event_delete_target caller (eq_ev_id (ev_id e))) (events db)))
         = {ev_id e}"
proof -
  have own: "events_select_policy caller e"
    using assms(2)
    by (simp add: events_select_policy_def users_can_delete_their_own_events_def
        users_can_view_their_own_events_def)
  have "event_delete_target caller (eq_ev_id (ev_id e)) e"
    using assms(2) own by (simp add: event_delete_target_def eq_ev_id_def)
  with assms(1) have "ev_id e \<in> set (map ev_id
      (filter (event_delete_target caller (eq_ev_id (ev_id e))) (events db)))"
    unfolding set_map set_filter by blast
  moreover have "\<And>x. event_delete_target caller (eq_ev_id (ev_id e)) x \<Longrightarrow> ev_id x = ev_id e"
    by (simp add: event_delete_target_def eq_ev_id_def)
  then have "set (map ev_id (filter (event_delete_target caller (eq_ev_id (ev_id e))) (events db)))
      \<subseteq> {ev_id e}"
    by auto
  ultimately show ?thesis by blast
qed

text \<open>
  C6: when its creator deletes an event, the event's row goes, and with it exactly the
  registrations and the notifications that reference the event; the rows of the other
  events, and the users and profiles, stay as they were.
\<close>

theorem event_delete_cascade:
  assumes "e \<in> set (events db)"
    and "sql_true (users_can_delete_their_own_events caller e)"
    and "delete_event caller (eq_ev_id (ev_id e)) db = Inr db'"
  shows "events db' = filter (\<lambda>x. ev_id x \<noteq> ev_id e) (events db)
         \<and> event_registrations db'
             = filter (\<lambda>r. reg_event_id r \<noteq> ev_id e) (event_registrations db)
         \<and> event_notifications db'
             = filter (\<lambda>n. ntf_event_id n \<noteq> ev_id e) (event_notifications db)
         \<and> users db' = users db \<and> profiles db' = profiles db"
proof -
  note ids = delete_hit_ids [OF assms(1,2)]
  from assms(3) have "db' = cascade_events
      (map ev_id (filter (event_delete_target caller (eq_ev_id (ev_id e))) (events db))) db"
    by (simp add: delete_event_def)
  then show ?thesis
    unfolding cascade_events_def ids by simp
qed

theorem event_delete_cascade_witness:
  "scn_event \<in> set (events scn_db_cascade)
   \<and> sql_true (users_can_delete_their_own_events (Some 1) scn_event)
   \<and> delete_event (Some 1) (eq_ev_id (ev_id scn_event)) scn_db_cascade
       = Inr (scn_db_cascade\<lparr>events := [scn_other_event],
                event_registrations := [(scn_registration 102 3)\<lparr>reg_event_id := 12\<rparr>],
                event_notifications := [(scn_notification 201 3)\<lparr>ntf_event_id := 12\<rparr>]\<rparr>)
   \<and> event_registrations (scn_db_cascade\<lparr>events := [scn_other_event],
                event_registrations := [(scn_registration 102 3)\<lparr>reg_event_id := 12\<rparr>],
                event_notifications := [(scn_notification 201 3)\<lparr>ntf_event_id := 12\<rparr>]\<rparr>)
       = filter (\<lambda>r. reg_event_id r \<noteq> ev_id scn_event) (event_registrations scn_db_cascade)"
proof -
  have h1: "scn_event \<in> set (events scn_db_cascade)"
    by (simp add: scn_defs)
  have h2: "sql_true (users_can_delete_their_own_events (Some 1) scn_event)"
    by (simp add: scn_defs policy_defs value_defs)
  have h3: "delete_event (Some 1) (eq_ev_id (ev_id scn_event)) scn_db_cascade
       = Inr (scn_db_cascade\<lparr>events := [scn_other_event],
                event_registrations := [(scn_registration 102 3)\<lparr>reg_event_id := 12\<rparr>],
                event_notifications := [(scn_notification 201 3)\<lparr>ntf_event_id := 12\<rparr>]\<rparr>)"
    by (simp add: scn_defs write_defs constraint_defs policy_defs value_defs)
  from event_delete_cascade [OF h1 h2 h3] h1 h2 h3 show ?thesis
    by blast
qed

section \<open>Notifications\<close>

text \<open>
  C7: a read of event_notifications returns exactly the rows of the table whose
  \<open>user_id\<close> is the caller's identity. An insert is never rejected by the policy and
  its outcome does not depend on the caller: a row that satisfies the constraints of the
  table is inserted whoever the caller and the target user are.
\<close>

theorem notification_policies:
  "(n \<in> set (select_event_notifications caller db)
      \<longleftrightarrow> n \<in> set (event_notifications db) \<and> caller = Some (ntf_user_id n))
   \<and> insert_event_notification caller row db \<noteq> Inl PolicyViolation
   \<and> insert_event_notification caller row db = insert_event_notification caller' row db
   \<and> (notification_type_check row
        \<and> ntf_id row \<notin> set (map ntf_id (event_notifications db))
        \<and> event_exists db (ntf_event_id row) \<and> user_exists db (ntf_user_id row)
      \<longrightarrow> insert_event_notification caller row db
            = Inr (db\<lparr>event_notifications := event_notifications db @ [row]\<rparr>))"
proof (intro conjI)
  show "n \<in> set (select_event_notifications caller db)
      \<longleftrightarrow> n \<in> set (event_notifications db) \<and> caller = Some (ntf_user_id n)"
    by (auto simp: select_event_notifications_def users_can_view_their_own_notifications_def
        sql_true_eq)
  have pass: "\<And>c. sql_true (system_can_create_notifications c row)"
    by (simp add: system_can_create_notifications_def sql_true_def)
  then have ins: "\<And>c. insert_event_notification c row db = notifications_insert_row row db"
    by (simp add: insert_event_notification_def)
  show "insert_event_notification caller row db \<noteq> Inl PolicyViolation"
    unfolding ins by (simp add: notifications_insert_row_def)
  show "insert_event_notification caller row db = insert_event_notification caller' row db"
    unfolding ins ..
  show "notification_type_check row
        \<and> ntf_id row \<notin> set (map ntf_id (event_notifications db))
        \<and> event_exists db (ntf_event_id row) \<and> user_exists db (ntf_user_id row)
      \<longrightarrow> insert_event_notification caller row db
            = Inr (db\<lparr>event_notifications := event_notifications db @ [row]\<rparr>)"
    unfolding ins by (simp add: notifications_insert_row_def)
qed

theorem notification_policies_witness:
  "notification_type_check (scn_notification 200 3)
   \<and> ntf_id (scn_notification 200 3) \<notin> set (map ntf_id (event_notifications scn_db))
   \<and> event_exists scn_db (ntf_event_id (scn_notification 200 3))
   \<and> user_exists scn_db (ntf_user_id (scn_notification 200 3))
   \<and> insert_event_notification (Some 2) (scn_notification 200 3) scn_db
       = Inr (scn_db\<lparr>event_notifications := [scn_notification 200 3]\<rparr>)
   \<and> insert_event_notification None (scn_notification 200 3) scn_db
       = Inr (scn_db\<lparr>event_notifications := [scn_notification 200 3]\<rparr>)
   \<and> select_event_notifications (Some 2)
        (scn_db\<lparr>event_notifications := [scn_notification 200 3]\<rparr>) = []
   \<and> select_event_notifications (Some 3)
        (scn_db\<lparr>event_notifications := [scn_notification 200 3]\<rparr>) = [scn_notification 200 3]"
  using notification_policies [of "scn_notification 200 3" "Some 2" scn_db
      "scn_notification 200 3" None]
  by (simp add: scn_defs write_defs constraint_defs policy_defs value_defs)

section \<open>The timestamp of the last update\<close>




lemma update_event_rows:
  assumes "update_event caller wh upd now db = Inr db'"
  shows "events db' = map (\<lambda>e. if event_update_target caller wh e
                               then update_events_updated_at now (upd e) else e) (events db)"
proof -
  from assms obtain rows where
    run: "update_rows (event_update_target caller wh)
            (\<lambda>e. update_events_updated_at now (upd e)) (event_row_check caller) []
            (events db) = Inr rows"
    and db': "db' = db\<lparr>events := rows\<rparr>"
    by (auto simp: update_event_def Let_def split: if_splits sum.splits)
  from update_rows_shape [OF run] show ?thesis by (simp add: db')
qed

lemma update_profile_rows:
  assumes "update_profile caller wh upd now db = Inr db'"
  shows "profiles db' = map (\<lambda>p. if profile_update_target caller wh p
                               then update_profiles_updated_at now (upd p) else p) (profiles db)"
proof -
  from assms obtain rows where
    run: "update_rows (profile_update_target caller wh)
            (\<lambda>p. update_profiles_updated_at now (upd p)) (profile_row_check caller) []
            (profiles db) = Inr rows"
    and db': "db' = db\<lparr>profiles := rows\<rparr>"
    by (auto simp: update_profile_def Let_def split: if_splits sum.splits)
  from update_rows_shape [OF run] show ?thesis by (simp add: db')
qed

text \<open>
  C5, as amended: an update of an event or of a profile sets \<open>updated_at\<close> of every
  row it reaches to the current time, whatever value the statement supplies for that
  column; the new value is strictly greater than the prior one whenever the prior one is
  earlier than the current time.
\<close>

theorem updated_at_overwritten:
  "(update_event caller wh upd now db = Inr db' \<and> i < length (events db)
      \<and> event_update_target caller wh (events db ! i)
    \<longrightarrow> length (events db') = length (events db)
        \<and> ev_updated_at (events db' ! i) = now
        \<and> (ev_updated_at (events db ! i) < now
             \<longrightarrow> ev_updated_at (events db ! i) < ev_updated_at (events db' ! i)))
   \<and> (update_profile pcaller pwh pupd pnow pdb = Inr pdb' \<and> j < length (profiles pdb)
      \<and> profile_update_target pcaller pwh (profiles pdb ! j)
    \<longrightarrow> length (profiles pdb') = length (profiles pdb)
        \<and> prof_updated_at (profiles pdb' ! j) = pnow
        \<and> (prof_updated_at (profiles pdb ! j) < pnow
             \<longrightarrow> prof_updated_at (profiles pdb ! j) < prof_updated_at (profiles pdb' ! j)))"
proof (intro conjI impI)
  assume h: "update_event caller wh upd now db = Inr db' \<and> i < length (events db)
      \<and> event_update_target caller wh (events db ! i)"
  then have rows: "events db' = map (\<lambda>e. if event_update_target caller wh e
      then update_events_updated_at now (upd e) else e) (events db)"
    using update_event_rows by blast
  from rows show "length (events db') = length (events db)" by simp
  from rows h show stamp: "ev_updated_at (events db' ! i) = now"
    by (simp add: update_events_updated_at_def)
  assume "ev_updated_at (events db ! i) < now"
  with stamp show "ev_updated_at (events db ! i) < ev_updated_at (events db' ! i)" by simp
next
  assume h: "update_profile pcaller pwh pupd pnow pdb = Inr pdb' \<and> j < length (profiles pdb)
      \<and> profile_update_target pcaller pwh (profiles pdb ! j)"
  then have rows: "profiles pdb' = map (\<lambda>p. if profile_update_target pcaller pwh p
      then update_profiles_updated_at pnow (pupd p) else p) (profiles pdb)"
    using update_profile_rows by blast
  from rows show "length (profiles pdb') = length (profiles pdb)" by simp
  from rows h show stamp: "prof_updated_at (profiles pdb' ! j) = pnow"
    by (simp add: update_profiles_updated_at_def)
  assume "prof_updated_at (profiles pdb ! j) < pnow"
  with stamp show "prof_updated_at (profiles pdb ! j) < prof_updated_at (profiles pdb' ! j)"
    by simp
qed


theorem updated_at_overwritten_witness:
  "update_event (Some 1) (eq_ev_id 10) scn_restamp 300 scn_db
     = Inr (scn_db\<lparr>events := [scn_event\<lparr>title := ''Seminar'', ev_updated_at := 300\<rparr>]\<rparr>)
   \<and> event_update_target (Some 1) (eq_ev_id 10) (events scn_db ! 0)
   \<and> ev_updated_at (events scn_db ! 0) = 100
   \<and> ev_updated_at (scn_restamp (events scn_db ! 0)) = 7
   \<and> ev_updated_at
        (events (scn_db\<lparr>events := [scn_event\<lparr>title := ''Seminar'', ev_updated_at := 300\<rparr>]\<rparr>) ! 0)
       = 300
   \<and> update_profile (Some 2) (eq_prof_user_id 2) scn_rename 300
        (scn_db\<lparr>profiles := [scn_profile]\<rparr>)
     = Inr (scn_db\<lparr>profiles :=
              [scn_profile\<lparr>display_name := Some ''Ann'', prof_updated_at := 300\<rparr>]\<rparr>)
   \<and> profile_update_target (Some 2) (eq_prof_user_id 2)
        (profiles (scn_db\<lparr>profiles := [scn_profile]\<rparr>) ! 0)
   \<and> prof_updated_at (profiles (scn_db\<lparr>profiles := [scn_profile]\<rparr>) ! 0) = 20
   \<and> prof_updated_at
        (profiles (scn_db\<lparr>profiles :=
              [scn_profile\<lparr>display_name := Some ''Ann'', prof_updated_at := 300\<rparr>]\<rparr>) ! 0)
       = 300"
  using updated_at_overwritten [of "Some 1" "eq_ev_id 10" scn_restamp 300 scn_db
      "scn_db\<lparr>events := [scn_event\<lparr>title := ''Seminar'', ev_updated_at := 300\<rparr>]\<rparr>" 0
      "Some 2" "eq_prof_user_id 2" scn_rename 300 "scn_db\<lparr>profiles := [scn_profile]\<rparr>"
      "scn_db\<lparr>profiles :=
              [scn_profile\<lparr>display_name := Some ''Ann'', prof_updated_at := 300\<rparr>]\<rparr>" 0]
  by (simp add: scn_defs write_defs constraint_defs policy_defs value_defs)

text \<open>
  An event inserted with an \<open>updated_at\<close> of 9000 and retitled at time 300 ends with
  \<open>updated_at = 300\<close>: the update of another attribute did not advance the timestamp
  beyond its prior value.
\<close>

theorem updated_at_not_advanced:
  "insert_event (Some 1) scn_future_event scn_db
     = Inr (scn_db\<lparr>events := [scn_event, scn_future_event]\<rparr>)
   \<and> update_event (Some 1) (eq_ev_id 13) scn_retitle 300
        (scn_db\<lparr>events := [scn_event, scn_future_event]\<rparr>)
     = Inr (scn_db\<lparr>events :=
              [scn_event, scn_future_event\<lparr>title := ''Seminar'', ev_updated_at := 300\<rparr>]\<rparr>)
   \<and> ev_updated_at scn_future_event = 9000
   \<and> ev_updated_at (scn_retitle scn_future_event) = 9000
   \<and> ev_updated_at (scn_future_event\<lparr>title := ''Seminar'', ev_updated_at := 300\<rparr>) = 300
   \<and> \<not> ev_updated_at scn_future_event
         < ev_updated_at (scn_future_event\<lparr>title := ''Seminar'', ev_updated_at := 300\<rparr>)"
  by (simp add: scn_defs write_defs constraint_defs policy_defs value_defs)


section \<open>Writes against the policies\<close>





lemma distinct_key_same_row:
  assumes "distinct (map k xs)" and "x \<in> set xs" and "y \<in> set xs" and "k x = k y"
  shows "x = y"
  using assms by (meson distinct_map inj_onD)







section \<open>The Register action\<close>


lemma own_registrations_visible:
  "filter (\<lambda>r. reg_event_id r = eid \<and> reg_user_id r = uid \<and> status r = Some ''registered'')
     (select_event_registrations (Some uid) db)
   = filter (\<lambda>r. reg_event_id r = eid \<and> reg_user_id r = uid \<and> status r = Some ''registered'')
       (event_registrations db)"
proof -
  have "\<And>r. reg_user_id r = uid \<Longrightarrow> registrations_select_policy (Some uid) db r"
    by (simp add: registrations_select_policy_def users_can_view_their_own_registrations_def
        sql_true_eq)
  then show ?thesis
    unfolding select_event_registrations_def filter_filter
    by (intro filter_cong) auto
qed

lemma single_None_short:
  "length xs \<le> 1 \<Longrightarrow> single xs = None \<longleftrightarrow> xs = []"
  by (cases xs) (auto simp: single_def split: list.splits)

lemma fetched_registration:
  assumes "distinct (map reg_key (event_registrations db))"
    and "prop_event props = Some ev" and "currentUserId props = Some uid"
  shows "registration (fetchRegistrationInfo props db st) = None
         \<longleftrightarrow> \<not> (\<exists>r \<in> set (event_registrations db).
                  reg_event_id r = ev_id ev \<and> reg_user_id r = uid
                  \<and> status r = Some ''registered'')"
proof -
  let ?P = "\<lambda>r. reg_event_id r = ev_id ev \<and> reg_user_id r = uid
               \<and> status r = Some ''registered''"
  let ?L = "filter ?P (event_registrations db)"
  have "?L = filter (\<lambda>r. status r = Some ''registered'')
               (filter (\<lambda>r. reg_key r = (ev_id ev, uid)) (event_registrations db))"
    unfolding filter_filter reg_key_def by (intro filter_cong) auto
  then have "length ?L \<le> length (filter (\<lambda>r. reg_key r = (ev_id ev, uid)) (event_registrations db))"
    by (metis length_filter_le)
  with distinct_key_at_most_one [OF assms(1), of "(ev_id ev, uid)"]
  have short: "length ?L \<le> 1" by linarith
  have "registration (fetchRegistrationInfo props db st) = single ?L"
    using assms(2,3) by (simp add: fetchRegistrationInfo_def own_registrations_visible)
  with single_None_short [OF short]
  have "registration (fetchRegistrationInfo props db st) = None \<longleftrightarrow> ?L = []" by simp
  then show ?thesis
    by (simp add: filter_empty_conv)
qed

lemma register_button_needs:
  assumes "register_button props st"
  shows "\<exists>ev. prop_event props = Some ev \<and> registration st = None
           \<and> is_public ev = Some True \<and> \<not> isEventCreator props ev"
  using assms by (auto simp: register_button_def canRegister_def split: option.splits)

lemma click_register_refused:
  assumes "prop_event props = Some ev"
    and "isEventCreator props ev \<or> is_public ev \<noteq> Some True"
  shows "click_register props gen_random_uuid now (st, db) = (st, db)"
proof -
  from assms have "\<not> register_button props st"
    by (auto simp: register_button_def canRegister_def)
  then show ?thesis by (simp add: click_register_def)
qed

lemma register_attempt_refused:
  assumes "distinct (map ev_id (events db))"
    and "e \<in> set (events db)"
    and "created_by e = Some uid \<or> is_public e \<noteq> Some True"
  shows "register_attempt uid (ev_id e) gen_random_uuid now db = db"
proof -
  let ?found = "find (eq_ev_id (ev_id e)) (select_events (Some uid) db)"
  let ?props = "\<lparr>prop_event = ?found, currentUserId = Some uid\<rparr>"
  have "\<not> register_button ?props st" for st
  proof (cases ?found)
    case None
    then show ?thesis by (simp add: register_button_def)
  next
    case (Some y)
    then have "y \<in> set (select_events (Some uid) db)" and "ev_id y = ev_id e"
      by (auto simp: find_Some_iff eq_ev_id_def)
    then have "y \<in> set (events db)" by (simp add: select_events_def)
    from distinct_key_same_row [OF assms(1) this assms(2) \<open>ev_id y = ev_id e\<close>]
    have "y = e" .
    with Some assms(3) show ?thesis
      by (auto simp: register_button_def canRegister_def isEventCreator_def)
  qed
  then show ?thesis
    by (simp add: register_attempt_def click_register_def Let_def)
qed

text \<open>
  C10, as amended: the Register button is rendered only when the component holds no
  registration of the caller, the \<open>is_public\<close> of the event the component was given
  is true and the caller is not the creator that this copy of the event names. After
  the component has loaded the registration information from a store, it holds no
  registration exactly when that store has no row with status registered for the caller
  and the event. For the creator named by the component's copy of the event, or when
  that copy is not public, the Register action does nothing; and when the component is
  given the event as the store has it, a creator does not register for their own event
  and no caller registers for an event that is not public.
\<close>

theorem register_offer:
  "(register_button props st
      \<longrightarrow> (\<exists>ev. prop_event props = Some ev \<and> registration st = None
             \<and> is_public ev = Some True \<and> \<not> isEventCreator props ev))
   \<and> (distinct (map reg_key (event_registrations db1))
       \<and> prop_event props1 = Some ev1 \<and> currentUserId props1 = Some uid1
      \<longrightarrow> (registration (fetchRegistrationInfo props1 db1 st1) = None
           \<longleftrightarrow> \<not> (\<exists>r \<in> set (event_registrations db1).
                    reg_event_id r = ev_id ev1 \<and> reg_user_id r = uid1
                    \<and> status r = Some ''registered'')))
   \<and> (prop_event props2 = Some ev2
       \<and> (isEventCreator props2 ev2 \<or> is_public ev2 \<noteq> Some True)
      \<longrightarrow> click_register props2 gen_random_uuid now (st2, db2) = (st2, db2))
   \<and> (distinct (map ev_id (events db3)) \<and> ev3 \<in> set (events db3)
       \<and> (created_by ev3 = Some uid3 \<or> is_public ev3 \<noteq> Some True)
      \<longrightarrow> register_attempt uid3 (ev_id ev3) gen_random_uuid3 now3 db3 = db3)"
proof (intro conjI impI)
  assume "register_button props st"
  then show "\<exists>ev. prop_event props = Some ev \<and> registration st = None
             \<and> is_public ev = Some True \<and> \<not> isEventCreator props ev"
    by (rule register_button_needs)
next
  assume "distinct (map reg_key (event_registrations db1))
       \<and> prop_event props1 = Some ev1 \<and> currentUserId props1 = Some uid1"
  then show "registration (fetchRegistrationInfo props1 db1 st1) = None
           \<longleftrightarrow> \<not> (\<exists>r \<in> set (event_registrations db1).
                    reg_event_id r = ev_id ev1 \<and> reg_user_id r = uid1
                    \<and> status r = Some ''registered'')"
    using fetched_registration by blast
next
  assume "prop_event props2 = Some ev2
       \<and> (isEventCreator props2 ev2 \<or> is_public ev2 \<noteq> Some True)"
  then show "click_register props2 gen_random_uuid now (st2, db2) = (st2, db2)"
    using click_register_refused by blast
next
  assume "distinct (map ev_id (events db3)) \<and> ev3 \<in> set (events db3)
       \<and> (created_by ev3 = Some uid3 \<or> is_public ev3 \<noteq> Some True)"
  then show "register_attempt uid3 (ev_id ev3) gen_random_uuid3 now3 db3 = db3"
    using register_attempt_refused by blast
qed

theorem register_offer_witness:
  "register_button (scn_props 3) (fetchRegistrationInfo (scn_props 3) scn_db_registered initial_details_state)
   \<and> registration (fetchRegistrationInfo (scn_props 3) scn_db_registered initial_details_state) = None
   \<and> is_public scn_event = Some True
   \<and> \<not> isEventCreator (scn_props 3) scn_event
   \<and> distinct (map reg_key (event_registrations scn_db_registered))
   \<and> registration (fetchRegistrationInfo (scn_props 2) scn_db_registered initial_details_state)
       = Some (scn_registration 100 2)
   \<and> \<not> register_button (scn_props 2)
         (fetchRegistrationInfo (scn_props 2) scn_db_registered initial_details_state)
   \<and> isEventCreator (scn_props 1) scn_event
   \<and> click_register (scn_props 1) 101 300 (initial_details_state, scn_db_registered)
       = (initial_details_state, scn_db_registered)
   \<and> click_register \<lparr>prop_event = Some scn_private_event, currentUserId = Some 2\<rparr> 101 300
        (initial_details_state, scn_db_registered)
       = (initial_details_state, scn_db_registered)
   \<and> distinct (map ev_id (events scn_db_registered))
   \<and> scn_event \<in> set (events scn_db_registered)
   \<and> created_by scn_event = Some 1
   \<and> register_attempt 1 (ev_id scn_event) 101 300 scn_db_registered = scn_db_registered
   \<and> distinct (map ev_id (events scn_db_private))
   \<and> scn_event\<lparr>is_public := Some False\<rparr> \<in> set (events scn_db_private)
   \<and> is_public (scn_event\<lparr>is_public := Some False\<rparr>) \<noteq> Some True
   \<and> register_attempt 3 (ev_id (scn_event\<lparr>is_public := Some False\<rparr>)) 101 300 scn_db_private
       = scn_db_private"
  using register_offer [of "scn_props 3"
      "fetchRegistrationInfo (scn_props 3) scn_db_registered initial_details_state" 
      scn_db_registered "scn_props 3" scn_event 3 initial_details_state
      "scn_props 1" scn_event 101 300 initial_details_state scn_db_registered
      scn_db_registered scn_event 1 101 300]
    register_offer [of "scn_props 3"
      "fetchRegistrationInfo (scn_props 3) scn_db_registered initial_details_state" 
      scn_db_registered "scn_props 2" scn_event 2 initial_details_state
      "\<lparr>prop_event = Some scn_private_event, currentUserId = Some 2\<rparr>" scn_private_event 101 300
      initial_details_state scn_db_registered
      scn_db_private "scn_event\<lparr>is_public := Some False\<rparr>" 3 101 300]
  by (simp add: scn_defs details_defs constraint_defs policy_defs value_defs)

text \<open>
  User 2 has a registered row for event 10, and the component, before it has loaded the
  registration information, renders Register for user 2. Event 10 is private in the
  store while the component of user 3 still holds the public copy: the Register action
  inserts a registration of user 3 for the private event.
\<close>

theorem register_offered_on_stale_copy:
  "registered_rows 10 scn_db_registered = [scn_registration 100 2]
   \<and> reg_user_id (scn_registration 100 2) = 2
   \<and> register_button (scn_props 2) initial_details_state
   \<and> events scn_db_private = [scn_event\<lparr>is_public := Some False\<rparr>]
   \<and> prop_event (scn_props 3) = Some scn_event
   \<and> is_public scn_event = Some True
   \<and> snd (click_register (scn_props 3) 101 300
        (fetchRegistrationInfo (scn_props 3) scn_db_private initial_details_state,
         scn_db_private))
       = scn_db_private\<lparr>event_registrations :=
                          [(scn_registration 101 3)\<lparr>registered_at := 300\<rparr>]\<rparr>"
  by (simp add: scn_defs details_defs write_defs constraint_defs policy_defs value_defs)

section \<open>The capacity of an event\<close>

text \<open>
  For a caller who did not create the event, the policies return only the caller's own
  registrations, so the count that the component compares with \<open>max_attendees\<close> is
  the number of the caller's own registered rows.
\<close>

lemma foreign_registrations_hidden:
  assumes "\<forall>e \<in> set (events db). ev_id e = eid \<longrightarrow> created_by e \<noteq> Some uid"
    and "reg_event_id r = eid"
  shows "registrations_select_policy (Some uid) db r \<longleftrightarrow> reg_user_id r = uid"
proof -
  have "\<not> sql_true (event_creators_can_view_all_registrations (Some uid) db r)"
    using assms
    unfolding event_creators_can_view_all_registrations_def list_ex_iff sql_true_eq
    by (auto simp: sql_true_def select_events_def)
  then show ?thesis
    by (auto simp: registrations_select_policy_def users_can_view_their_own_registrations_def
        sql_true_eq)
qed

lemma registrationCount_counts_own_rows:
  assumes "prop_event props = Some ev" and "currentUserId props = Some uid"
    and "\<forall>e \<in> set (events db). ev_id e = ev_id ev \<longrightarrow> created_by e \<noteq> Some uid"
  shows "registrationCount (fetchRegistrationInfo props db st)
         = length (filter (\<lambda>r. reg_event_id r = ev_id ev \<and> reg_user_id r = uid
                              \<and> status r = Some ''registered'')
                     (event_registrations db))"
proof -
  have "filter (\<lambda>r. reg_event_id r = ev_id ev \<and> status r = Some ''registered'')
          (select_event_registrations (Some uid) db)
        = filter (\<lambda>r. reg_event_id r = ev_id ev \<and> reg_user_id r = uid
                       \<and> status r = Some ''registered'')
            (event_registrations db)"
    unfolding select_event_registrations_def filter_filter
    using foreign_registrations_hidden [OF assms(3)]
    by (intro filter_cong) auto
  with assms(1,2) show ?thesis
    by (simp add: fetchRegistrationInfo_def)
qed

text \<open>
  C1: event 10 admits one attendee. User 2 registers, which fills the event. User 3 then
  opens the details: the count of registrations is read through the policies, which show
  user 3 none of the rows of user 2, so the component counts 0, does not find the event
  full and renders Register; the insert goes through and the event has two rows with
  status registered.
\<close>

theorem capacity_check_misses_other_users:
  "max_attendees scn_event = Some 1
   \<and> register_attempt 2 10 100 200 scn_db = scn_db_registered
   \<and> length (registered_rows 10 scn_db_registered) = 1
   \<and> registrationCount
       (fetchRegistrationInfo (scn_props 3) scn_db_registered initial_details_state) = 0
   \<and> isFull (fetchRegistrationInfo (scn_props 3) scn_db_registered initial_details_state)
        scn_event = False
   \<and> register_button (scn_props 3)
       (fetchRegistrationInfo (scn_props 3) scn_db_registered initial_details_state)
   \<and> register_attempt 3 10 101 300 scn_db_registered
       = scn_db\<lparr>event_registrations :=
                  [scn_registration 100 2, (scn_registration 101 3)\<lparr>registered_at := 300\<rparr>]\<rparr>
   \<and> length (registered_rows 10
        (register_attempt 3 10 101 300 (register_attempt 2 10 100 200 scn_db))) = 2"
  by (simp add: scn_defs details_defs write_defs constraint_defs policy_defs value_defs)


end
